theory Spec2Isabelle
  imports Main
begin

section \<open>The package initialiser \<^verbatim>\<open>src/agent/__init__.py\<close>\<close>

text \<open>
  The repository consists of one file, the initialiser of the package \<^verbatim>\<open>src.agent\<close>.
  Its body is four statements in a straight line: a docstring, two
  \<^verbatim>\<open>from ... import ...\<close> statements and the assignment of \<^verbatim>\<open>__all__\<close>.
  Running it means running Python's import statement twice, so the model has two layers:
  the part of Python's import system the two statements go through (the module cache
  \<^verbatim>\<open>sys.modules\<close>, the search for a module, the binding of a loaded submodule in its
  parent package), and the body of the file written on top of it.
\<close>

subsection \<open>Values, namespaces, errors\<close>

type_synonym ident = string

text \<open>A dotted module name, as its components: \<^verbatim>\<open>src.agent.state\<close> is
  \<open>[''src'', ''agent'', ''state'']\<close>.\<close>

type_synonym modname = "string list"

text \<open>
  Python values, as far as the file handles them: string and list literals, module
  objects (named by the key they have in \<^verbatim>\<open>sys.modules\<close>), and the objects the sibling
  modules define, which are opaque here and told apart by their identity.
\<close>

datatype pyval = PyNone | PyStr string | PyList "pyval list" | PyModule modname | PyObj nat

type_synonym namespace = "ident \<rightharpoonup> pyval"

text \<open>
  The exceptions an import statement raises: the module is not found, the module has no
  attribute of the imported name, or the body of the imported module raised while it
  was executed (any exception, kept by its text).
\<close>

datatype error = ModuleNotFoundError modname | ImportError ident modname | Raised string

subsection \<open>The import system\<close>

text \<open>
  The sibling modules \<^verbatim>\<open>src.agent.state\<close> and \<^verbatim>\<open>src.agent.workflow\<close> are not
  part of the repository, so what executing one of them does is a parameter: it either
  raises or ends with the namespace the module has defined, and it may have written
  output on the way. A \<open>finder\<close> gives that outcome for every module that can be found
  on the import path, and \<open>None\<close> for a module that cannot.

  What this import system leaves out, since nothing in the repository says it: a
  sibling's body is taken not to reach into the namespace of the package that is
  importing it nor into other entries of \<^verbatim>\<open>sys.modules\<close>, the further modules a
  sibling imports are not tracked, a sibling is a plain module and not a package with
  submodules, and an entry of \<^verbatim>\<open>sys.modules\<close> that is set to \<^verbatim>\<open>None\<close> (which
  makes an import raise) is not represented. The properties that depend on these points
  are stated over an arbitrary import system instead (\<open>init_body\<close> below).
\<close>

record sibling =
  result :: "error + namespace"
  emitted :: "string list"

type_synonym finder = "modname \<rightharpoonup> sibling"

text \<open>
  The interpreter state the initialiser runs in: \<open>globals\<close> is the namespace of the
  package \<^verbatim>\<open>src.agent\<close> itself (the globals of the executing body), \<open>sys_modules\<close>
  the cache of the other loaded modules, \<open>stdout\<close> the output written so far.
\<close>

record interp =
  globals :: namespace
  sys_modules :: "modname \<rightharpoonup> namespace"
  stdout :: "string list"

type_synonym step = "interp \<Rightarrow> error option \<times> interp"

text \<open>The package whose \<^verbatim>\<open>__init__.py\<close> this is: the file's path is
  \<^verbatim>\<open>src/agent/__init__.py\<close>.\<close>

definition package_name :: modname where
  "package_name = [''src'', ''agent'']"

text \<open>
  After a submodule is loaded, the import system binds it under its last component in
  the namespace of its parent package. For a submodule of \<^verbatim>\<open>src.agent\<close> the parent's
  namespace is \<open>globals\<close>; a top-level module has no parent.
\<close>

definition bind_submodule :: "modname \<Rightarrow> interp \<Rightarrow> interp" where
  "bind_submodule m s =
     (if length m < 2 then s
      else if butlast m = package_name
        then s\<lparr>globals := (globals s)(last m \<mapsto> PyModule m)\<rparr>
      else (case sys_modules s (butlast m) of
              None \<Rightarrow> s
            | Some pns \<Rightarrow>
                s\<lparr>sys_modules := (sys_modules s)(butlast m \<mapsto> pns(last m \<mapsto> PyModule m))\<rparr>))"

text \<open>
  Importing a module: a module already in \<^verbatim>\<open>sys.modules\<close> is returned as it is; a
  module that is not found raises \<^verbatim>\<open>ModuleNotFoundError\<close>; otherwise its body is
  executed, and either its exception propagates (the module is not kept in the cache) or
  the module is registered and bound in its parent. Exceptions do not roll anything back:
  the state comes back with the error. The parent packages of a sibling are
  \<^verbatim>\<open>src\<close> and \<^verbatim>\<open>src.agent\<close>, which are imported already when the body of
  \<^verbatim>\<open>src.agent\<close> runs, so no parent is imported here.
\<close>

definition import_module :: "finder \<Rightarrow> modname \<Rightarrow> interp \<Rightarrow> (error + namespace) \<times> interp" where
  "import_module F m s =
     (case sys_modules s m of
        Some ns \<Rightarrow> (Inr ns, s)
      | None \<Rightarrow>
          (case F m of
             None \<Rightarrow> (Inl (ModuleNotFoundError m), s)
           | Some sib \<Rightarrow>
               (case result sib of
                  Inl e \<Rightarrow> (Inl e, s\<lparr>stdout := stdout s @ emitted sib\<rparr>)
                | Inr ns \<Rightarrow>
                    (Inr ns,
                     bind_submodule m
                       (s\<lparr>sys_modules := (sys_modules s)(m \<mapsto> ns),
                          stdout := stdout s @ emitted sib\<rparr>)))))"

text \<open>
  \<^verbatim>\<open>from m import n\<close>: import \<open>m\<close>, read its attribute \<open>n\<close>
  (\<^verbatim>\<open>ImportError\<close> when it has none), and bind the value under the same name in the
  importing namespace. The siblings are taken to be plain modules, so there is no
  second attempt to import \<open>n\<close> as a submodule of \<open>m\<close>.
\<close>

definition import_from :: "finder \<Rightarrow> modname \<Rightarrow> ident \<Rightarrow> step" where
  "import_from F m n s =
     (case import_module F m s of
        (Inl e, s1) \<Rightarrow> (Some e, s1)
      | (Inr ns, s1) \<Rightarrow>
          (case ns n of
             None \<Rightarrow> (Some (ImportError n m), s1)
           | Some v \<Rightarrow> (None, s1\<lparr>globals := (globals s1)(n \<mapsto> v)\<rparr>)))"

text \<open>Binding a name in the package namespace (an assignment at module level).\<close>

definition store_name :: "ident \<Rightarrow> pyval \<Rightarrow> step" where
  "store_name x v s = (None, s\<lparr>globals := (globals s)(x \<mapsto> v)\<rparr>)"

text \<open>Statements in sequence: the second runs only if the first did not raise.\<close>

definition and_then :: "step \<Rightarrow> step \<Rightarrow> step" where
  "and_then f g s = (case f s of (None, s1) \<Rightarrow> g s1 | (Some e, s1) \<Rightarrow> (Some e, s1))"

subsection \<open>The body of \<^verbatim>\<open>__init__.py\<close>\<close>

text \<open>The text of the file, line by line (23 lines; the last one has no line break
  after it).\<close>

definition source_lines :: "string list" where
  "source_lines =
    [''\"\"\"'',
     ''Agent Module.'',
     '''',
     ''This module provides a LangGraph-based agent workflow for [DESCRIBE YOUR AGENT].'',
     '''',
     ''Main exports:'',
     ''    - build_agent_graph: Builds the compiled workflow graph'',
     ''    - AgentState: State type definition'',
     ''    - [Other models and functions]'',
     '''',
     ''Example:'',
     ''    >>> from src.agent import build_agent_graph'',
     ''    >>> graph = build_agent_graph()'',
     ''    >>> result = graph.invoke({\"input\": \"example query\"})'',
     ''\"\"\"'',
     '''',
     ''from src.agent.state import AgentState'',
     ''from src.agent.workflow import build_agent_graph'',
     '''',
     ''__all__ = ['',
     ''    \"build_agent_graph\",'',
     ''    \"AgentState\",'',
     '']'']"

text \<open>
  The value of the docstring is what stands between the two \<^verbatim>\<open>"""\<close>: a line
  break, then lines 2 to 14 of the file, each with its line break.
\<close>

definition docstring :: string where
  "docstring = CHR 0x0A # concat (map (\<lambda>l. l @ [CHR 0x0A]) (take 13 (drop 1 source_lines)))"

definition state_module :: modname where
  "state_module = [''src'', ''agent'', ''state'']"

definition workflow_module :: modname where
  "workflow_module = [''src'', ''agent'', ''workflow'']"

text \<open>The list literal assigned to \<^verbatim>\<open>__all__\<close> (lines 20 to 23).\<close>

definition dunder_all :: "string list" where
  "dunder_all = [''build_agent_graph'', ''AgentState'']"

text \<open>
  The module body, statement by statement:
  \<^verbatim>\<open>
  """..."""
  from src.agent.state import AgentState
  from src.agent.workflow import build_agent_graph
  __all__ = ["build_agent_graph", "AgentState"]
  \<close>
\<close>

definition init_module :: "finder \<Rightarrow> step" where
  "init_module F =
     and_then (store_name ''__doc__'' (PyStr docstring))
    (and_then (import_from F state_module ''AgentState'')
    (and_then (import_from F workflow_module ''build_agent_graph'')
              (store_name ''__all__'' (PyList (map PyStr dunder_all)))))"

subsection \<open>The body over any import system\<close>

text \<open>
  What an import statement does to the interpreter is decided outside this file: by
  Python's import machinery and by the bodies of the sibling modules, which the
  repository does not contain. The import system above is one possible behaviour. The
  claims about when initialisation raises and about what it changes are therefore stated
  for the body over an arbitrary import system: a function that, for a module, a name and
  the present state, gives the value the name resolves to or the exception raised, and
  the state it leaves, with no restriction on what it has done to the package namespace,
  to \<^verbatim>\<open>sys.modules\<close> or to the output.
\<close>

type_synonym import_system = "modname \<Rightarrow> ident \<Rightarrow> interp \<Rightarrow> (error + pyval) \<times> interp"

text \<open>\<^verbatim>\<open>from m import n\<close> over an import system: the exception propagates, or the
  resolved value is bound under \<open>n\<close> in the package namespace.\<close>

definition from_import :: "import_system \<Rightarrow> modname \<Rightarrow> ident \<Rightarrow> step" where
  "from_import imp m n s =
     (case imp m n s of
        (Inl e, s1) \<Rightarrow> (Some e, s1)
      | (Inr v, s1) \<Rightarrow> (None, s1\<lparr>globals := (globals s1)(n \<mapsto> v)\<rparr>))"

text \<open>The same four statements as \<open>init_module\<close>, in the same order.\<close>

definition init_body :: "import_system \<Rightarrow> step" where
  "init_body imp =
     and_then (store_name ''__doc__'' (PyStr docstring))
    (and_then (from_import imp state_module ''AgentState'')
    (and_then (from_import imp workflow_module ''build_agent_graph'')
              (store_name ''__all__'' (PyList (map PyStr dunder_all)))))"

text \<open>The import system of the previous subsection, as an instance: \<open>init_module F\<close> is
  \<open>init_body (import_name F)\<close>.\<close>

definition import_name :: "finder \<Rightarrow> import_system" where
  "import_name F m n s =
     (case import_module F m s of
        (Inl e, s1) \<Rightarrow> (Inl e, s1)
      | (Inr ns, s1) \<Rightarrow>
          (case ns n of
             None \<Rightarrow> (Inl (ImportError n m), s1)
           | Some v \<Rightarrow> (Inr v, s1)))"

text \<open>
  The two import resolutions as they happen in a run from state \<open>s\<close>: the first in
  \<open>s\<close> with the docstring bound, the second (after the first has resolved to \<open>v1\<close>)
  in the state the first one left, with \<^verbatim>\<open>AgentState\<close> bound to \<open>v1\<close>.
\<close>

definition first_import :: "import_system \<Rightarrow> interp \<Rightarrow> (error + pyval) \<times> interp" where
  "first_import imp s =
     imp state_module ''AgentState'' (s\<lparr>globals := (globals s)(''__doc__'' \<mapsto> PyStr docstring)\<rparr>)"

definition second_import :: "import_system \<Rightarrow> interp \<Rightarrow> pyval \<Rightarrow> (error + pyval) \<times> interp" where
  "second_import imp s v1 =
     imp workflow_module ''build_agent_graph''
       ((snd (first_import imp s))
          \<lparr>globals := (globals (snd (first_import imp s)))(''AgentState'' \<mapsto> v1)\<rparr>)"

subsection \<open>The syntax of the file\<close>

text \<open>
  The claims about what the file contains (which statements, which names, how many
  lines) are about its syntax. The abstract syntax below follows the node names of
  Python's \<^verbatim>\<open>ast\<close> module; it has the statement forms the file uses and the ones the
  specification says it does not use.
\<close>

datatype expr =
    Constant string
  | ListExpr "expr list"
  | Name ident
  | Call expr "expr list"

datatype stmt =
    Expr expr
  | ImportFrom modname "ident list"
  | Assign ident expr
  | FunctionDef ident "stmt list"
  | AsyncFunctionDef ident "stmt list"
  | ClassDef ident "stmt list"
  | IfStmt expr "stmt list" "stmt list"
  | ForStmt ident expr "stmt list"
  | WhileStmt expr "stmt list"
  | WithStmt expr "stmt list"
  | TryStmt "stmt list" "stmt list"
  | RaiseStmt expr

text \<open>A statement with the first and the last line it stands on (lines count from 1).\<close>

type_synonym located = "(nat \<times> nat) \<times> stmt"

text \<open>The four statements of the file, on lines 1 to 15, 17, 18 and 20 to 23.\<close>

definition module_body :: "located list" where
  "module_body =
    [((1, 15), Expr (Constant docstring)),
     ((17, 17), ImportFrom state_module [''AgentState'']),
     ((18, 18), ImportFrom workflow_module [''build_agent_graph'']),
     ((20, 23), Assign ''__all__'' (ListExpr (map Constant dunder_all)))]"

definition module_stmts :: "stmt list" where
  "module_stmts = map snd module_body"

subsubsection \<open>From the syntax back to the text\<close>

fun split_lines :: "string \<Rightarrow> string list" where
  "split_lines [] = [[]]"
| "split_lines (c # cs) =
     (if c = CHR 0x0A then [] # split_lines cs
      else (case split_lines cs of [] \<Rightarrow> [[c]] | l # ls \<Rightarrow> (c # l) # ls))"

fun dotted :: "modname \<Rightarrow> string" where
  "dotted [] = []"
| "dotted [x] = x"
| "dotted (x # xs) = x @ ''.'' @ dotted xs"

fun comma_separated :: "string list \<Rightarrow> string" where
  "comma_separated [] = []"
| "comma_separated [x] = x"
| "comma_separated (x # xs) = x @ '', '' @ comma_separated xs"

fun quoted :: "expr \<Rightarrow> string option" where
  "quoted (Constant s) = Some ([CHR 0x22] @ s @ [CHR 0x22])"
| "quoted _ = None"

text \<open>
  The lines a statement is written on, in the layout the file uses: a string statement
  between triple quotes, an import on one line, a list of string literals with one
  element per line, indented by four spaces and followed by a comma.
\<close>

fun render :: "stmt \<Rightarrow> string list option" where
  "render (Expr (Constant d)) = Some (split_lines (''\"\"\"'' @ d @ ''\"\"\"''))"
| "render (ImportFrom m ns) = Some [''from '' @ dotted m @ '' import '' @ comma_separated ns]"
| "render (Assign x (ListExpr es)) =
     map_option (\<lambda>ls. [x @ '' = [''] @ map (\<lambda>l. ''    '' @ l @ '','') ls @ ['']''])
       (those (map quoted es))"
| "render _ = None"

text \<open>
  The text of a list of located statements, starting at line \<open>n\<close>: every statement
  fills exactly the lines of its span, and the lines between two statements are empty.
\<close>

fun layout :: "nat \<Rightarrow> located list \<Rightarrow> string list option" where
  "layout n [] = Some []"
| "layout n (((a, b), st) # rest) =
     (case render st of
        None \<Rightarrow> None
      | Some ls \<Rightarrow>
          if n \<le> a \<and> length ls = b + 1 - a
          then map_option (\<lambda>tl. replicate (a - n) [] @ ls @ tl) (layout (b + 1) rest)
          else None)"

subsubsection \<open>What a statement is\<close>

fun is_definition :: "stmt \<Rightarrow> bool" where
  "is_definition (FunctionDef _ _) = True"
| "is_definition (AsyncFunctionDef _ _) = True"
| "is_definition (ClassDef _ _) = True"
| "is_definition _ = False"

fun is_control_flow :: "stmt \<Rightarrow> bool" where
  "is_control_flow (IfStmt _ _ _) = True"
| "is_control_flow (ForStmt _ _ _) = True"
| "is_control_flow (WhileStmt _ _) = True"
| "is_control_flow (WithStmt _ _) = True"
| "is_control_flow _ = False"

fun is_error_handling :: "stmt \<Rightarrow> bool" where
  "is_error_handling (TryStmt _ _) = True"
| "is_error_handling (RaiseStmt _) = True"
| "is_error_handling _ = False"

fun is_concurrency :: "stmt \<Rightarrow> bool" where
  "is_concurrency (AsyncFunctionDef _ _) = True"
| "is_concurrency _ = False"

text \<open>Input and output, and every other computation, needs a call.\<close>

fun has_call :: "expr \<Rightarrow> bool" where
  "has_call (Call _ _) = True"
| "has_call (ListExpr es) = list_ex has_call es"
| "has_call _ = False"

fun stmt_exprs :: "stmt \<Rightarrow> expr list" where
  "stmt_exprs (Expr e) = [e]"
| "stmt_exprs (Assign _ e) = [e]"
| "stmt_exprs (IfStmt e _ _) = [e]"
| "stmt_exprs (ForStmt _ e _) = [e]"
| "stmt_exprs (WhileStmt e _) = [e]"
| "stmt_exprs (WithStmt e _) = [e]"
| "stmt_exprs (RaiseStmt e) = [e]"
| "stmt_exprs _ = []"

fun is_literal :: "expr \<Rightarrow> bool" where
  "is_literal (Constant _) = True"
| "is_literal (ListExpr es) = list_all is_literal es"
| "is_literal _ = False"

text \<open>Declarative statements: a string on its own, an import, a name bound to a literal.\<close>

fun is_declarative :: "stmt \<Rightarrow> bool" where
  "is_declarative (Expr (Constant _)) = True"
| "is_declarative (ImportFrom _ _) = True"
| "is_declarative (Assign _ e) = is_literal e"
| "is_declarative _ = False"

text \<open>The number of lines covered by statements that are not declarative.\<close>

definition logic_lines :: "located list \<Rightarrow> nat" where
  "logic_lines body =
     sum_list (map (\<lambda>((a, b), st). if is_declarative st then 0 else b + 1 - a) body)"

definition declarative_lines :: "located list \<Rightarrow> nat" where
  "declarative_lines body =
     sum_list (map (\<lambda>((a, b), st). if is_declarative st then b + 1 - a else 0) body)"

text \<open>The names a statement defines itself, imports, and assigns.\<close>

fun defined_names :: "stmt \<Rightarrow> ident list" where
  "defined_names (FunctionDef n _) = [n]"
| "defined_names (AsyncFunctionDef n _) = [n]"
| "defined_names (ClassDef n _) = [n]"
| "defined_names _ = []"

fun imported_names :: "stmt \<Rightarrow> (ident \<times> modname) list" where
  "imported_names (ImportFrom m ns) = map (\<lambda>n. (n, m)) ns"
| "imported_names _ = []"

fun assigned_names :: "stmt \<Rightarrow> ident list" where
  "assigned_names (Assign x _) = [x]"
| "assigned_names (ForStmt x _ _) = [x]"
| "assigned_names _ = []"

fun string_of :: "expr \<Rightarrow> string option" where
  "string_of (Constant s) = Some s"
| "string_of _ = None"

text \<open>The public export list a statement states: the strings it assigns to
  \<^verbatim>\<open>__all__\<close>.\<close>

fun exported_names :: "stmt \<Rightarrow> string list" where
  "exported_names (Assign x (ListExpr es)) =
     (if x = ''__all__'' then (case those (map string_of es) of None \<Rightarrow> [] | Some ns \<Rightarrow> ns)
      else [])"
| "exported_names _ = []"

subsubsection \<open>From the syntax to the meaning\<close>

text \<open>
  The meaning of the statement forms the file uses; the other forms have none here.
  A string on its own line does nothing when it is executed (as the first statement
  it is the module's docstring, which \<open>exec_module\<close> stores in \<^verbatim>\<open>__doc__\<close>).
\<close>

definition pass :: step where
  "pass s = (None, s)"

fun literal_value :: "expr \<Rightarrow> pyval option" where
  "literal_value (Constant s) = Some (PyStr s)"
| "literal_value (ListExpr es) = map_option PyList (those (map literal_value es))"
| "literal_value _ = None"

fun exec_stmt :: "finder \<Rightarrow> stmt \<Rightarrow> step option" where
  "exec_stmt F (Expr e) = map_option (\<lambda>_. pass) (literal_value e)"
| "exec_stmt F (ImportFrom m ns) = Some (foldr (\<lambda>n k. and_then (import_from F m n) k) ns pass)"
| "exec_stmt F (Assign x e) = map_option (store_name x) (literal_value e)"
| "exec_stmt F _ = None"

fun exec_block :: "finder \<Rightarrow> stmt list \<Rightarrow> step option" where
  "exec_block F [] = Some pass"
| "exec_block F (st # rest) =
     (case exec_stmt F st of
        None \<Rightarrow> None
      | Some f \<Rightarrow> map_option (and_then f) (exec_block F rest))"

definition doc_value :: "stmt list \<Rightarrow> pyval" where
  "doc_value body = (case body of Expr (Constant d) # _ \<Rightarrow> PyStr d | _ \<Rightarrow> PyNone)"

definition exec_module :: "finder \<Rightarrow> stmt list \<Rightarrow> step option" where
  "exec_module F body =
     map_option (and_then (store_name ''__doc__'' (doc_value body))) (exec_block F body)"

subsection \<open>What the import path holds\<close>

text \<open>
  The definition \<open>n\<close> of module \<open>m\<close> as an import statement executed in state \<open>s\<close>
  would find it, without executing anything: the attribute of the cached module, or
  else of the module the finder would load.
\<close>

definition resolve :: "finder \<Rightarrow> interp \<Rightarrow> modname \<Rightarrow> ident \<Rightarrow> error + pyval" where
  "resolve F s m n =
     (case sys_modules s m of
        Some ns \<Rightarrow> (case ns n of None \<Rightarrow> Inl (ImportError n m) | Some v \<Rightarrow> Inr v)
      | None \<Rightarrow>
          (case F m of
             None \<Rightarrow> Inl (ModuleNotFoundError m)
           | Some sib \<Rightarrow>
               (case result sib of
                  Inl e \<Rightarrow> Inl e
                | Inr ns \<Rightarrow> (case ns n of None \<Rightarrow> Inl (ImportError n m) | Some v \<Rightarrow> Inr v))))"

text \<open>What loading \<open>m\<close> in state \<open>s\<close> writes: nothing if \<open>m\<close> is cached or not found,
  else the output of its body.\<close>

definition load_output :: "finder \<Rightarrow> interp \<Rightarrow> modname \<Rightarrow> string list" where
  "load_output F s m =
     (case sys_modules s m of
        Some _ \<Rightarrow> []
      | None \<Rightarrow> (case F m of None \<Rightarrow> [] | Some sib \<Rightarrow> emitted sib))"

text \<open>The entry of \<open>m\<close> in \<^verbatim>\<open>sys.modules\<close> after an import of \<open>m\<close> in state \<open>s\<close>.\<close>

definition module_after :: "finder \<Rightarrow> interp \<Rightarrow> modname \<Rightarrow> namespace option" where
  "module_after F s m =
     (case sys_modules s m of
        Some ns \<Rightarrow> Some ns
      | None \<Rightarrow>
          (case F m of
             None \<Rightarrow> None
           | Some sib \<Rightarrow> (case result sib of Inl _ \<Rightarrow> None | Inr ns \<Rightarrow> Some ns)))"

text \<open>The package namespace after the import system has dealt with sibling \<open>m\<close>: if
  \<open>m\<close> was loaded just now, it is bound there under its last component.\<close>

definition bind_loaded :: "finder \<Rightarrow> interp \<Rightarrow> modname \<Rightarrow> namespace \<Rightarrow> namespace" where
  "bind_loaded F s m g =
     (if sys_modules s m = None \<and> module_after F s m \<noteq> None
      then g(last m \<mapsto> PyModule m) else g)"

subsection \<open>The repository snapshot\<close>

text \<open>The files of the snapshot, as paths from the repository root: there is one.\<close>

definition snapshot_files :: "string list list" where
  "snapshot_files = [[''src'', ''agent'', ''__init__.py'']]"

text \<open>Module \<open>a.b.c\<close> is found as the package \<^verbatim>\<open>a/b/c/__init__.py\<close> or as the
  file \<^verbatim>\<open>a/b/c.py\<close>.\<close>

definition module_files :: "modname \<Rightarrow> string list list" where
  "module_files m = (if m = [] then [] else [m @ [''__init__.py''], butlast m @ [last m @ ''.py'']])"

text \<open>A finder over a set of files: a module is found if one of its files is there;
  \<open>code\<close> says what executing a found module does.\<close>

definition path_finder :: "string list list \<Rightarrow> (modname \<Rightarrow> sibling) \<Rightarrow> finder" where
  "path_finder files code m =
     (if list_ex (\<lambda>f. f \<in> set files) (module_files m) then Some (code m) else None)"

subsection \<open>Example inputs\<close>

text \<open>A fresh interpreter about to execute the body of the package, and a finder under
  which both siblings exist and define the imported names.\<close>

definition fresh_interp :: interp where
  "fresh_interp =
     \<lparr>globals = [''__name__'' \<mapsto> PyStr ''src.agent''], sys_modules = Map.empty, stdout = []\<rparr>"

definition example_finder :: finder where
  "example_finder =
     [state_module \<mapsto> \<lparr>result = Inr [''AgentState'' \<mapsto> PyObj 1], emitted = []\<rparr>,
      workflow_module \<mapsto>
        \<lparr>result = Inr [''build_agent_graph'' \<mapsto> PyObj 2], emitted = [''compiled'']\<rparr>]"

text \<open>A second finder and state: other objects of the same names, the state module
  already loaded.\<close>

definition other_finder :: finder where
  "other_finder =
     [workflow_module \<mapsto>
        \<lparr>result = Inr [''build_agent_graph'' \<mapsto> PyObj 2, ''helper'' \<mapsto> PyObj 7],
         emitted = []\<rparr>]"

definition warm_interp :: interp where
  "warm_interp =
     \<lparr>globals = Map.empty,
      sys_modules = [state_module \<mapsto> [''AgentState'' \<mapsto> PyObj 1]],
      stdout = [''started'']\<rparr>"

text \<open>An interpreter in which both siblings are loaded already.\<close>

definition loaded_interp :: interp where
  "loaded_interp =
     \<lparr>globals = [''__name__'' \<mapsto> PyStr ''src.agent''],
      sys_modules =
        [state_module \<mapsto> [''AgentState'' \<mapsto> PyObj 1],
         workflow_module \<mapsto> [''build_agent_graph'' \<mapsto> PyObj 2]],
      stdout = [''started'']\<rparr>"

text \<open>
  An import system that does more than load a plain module: it resolves every name of
  \<^verbatim>\<open>src.agent.state\<close> to a submodule of that name, which it registers, and while
  doing so it loads a further module, binds a further name in the package namespace and
  writes output. Imports from any other module resolve without touching the state.
\<close>

definition busy_imports :: import_system where
  "busy_imports m n s =
     (if m = state_module then
        (Inr (PyModule (m @ [n])),
         s\<lparr>globals := (globals s)(''state'' \<mapsto> PyModule m, ''foo'' \<mapsto> PyObj 3),
           sys_modules :=
             (sys_modules s)
               (m \<mapsto> [n \<mapsto> PyModule (m @ [n])],
                m @ [n] \<mapsto> Map.empty,
                [''colorsys''] \<mapsto> Map.empty),
           stdout := stdout s @ [''loading state'']\<rparr>)
      else (Inr (PyObj 2), s))"

section \<open>Properties\<close>

subsection \<open>The two import statements in closed form\<close>

text \<open>
  An import of a sibling of the package changes the state in three places: the entry of
  the sibling in \<^verbatim>\<open>sys.modules\<close>, the output, and the binding of the submodule in the
  package namespace. Whether it raises is what \<open>resolve\<close> says.
\<close>

lemma import_from_sibling:
  assumes "butlast m = package_name" and "2 \<le> length m"
  shows "import_from F m n s =
    (let s1 = s\<lparr>globals := (if sys_modules s m = None \<and> module_after F s m \<noteq> None
                               then (globals s)(last m \<mapsto> PyModule m) else globals s),
                  sys_modules := (sys_modules s)(m := module_after F s m),
                  stdout := stdout s @ load_output F s m\<rparr>
     in case resolve F s m n of
          Inl e \<Rightarrow> (Some e, s1)
        | Inr v \<Rightarrow> (None, s1\<lparr>globals := (globals s1)(n \<mapsto> v)\<rparr>))"
proof (cases "sys_modules s m")
  case (Some ns)
  then have same: "(sys_modules s)(m \<mapsto> ns) = sys_modules s"
    by (simp add: fun_upd_idem)
  show ?thesis
    using Some same
    by (simp add: import_from_def import_module_def resolve_def module_after_def
        load_output_def split: option.splits)
next
  case None
  then have same: "(sys_modules s)(m := None) = sys_modules s"
    by (simp add: fun_upd_idem)
  show ?thesis
  proof (cases "F m")
    case no: None
    show ?thesis
      using None no same
      by (simp add: import_from_def import_module_def resolve_def module_after_def
          load_output_def)
  next
    case (Some sib)
    show ?thesis
      using None Some assms same
      by (cases "result sib")
        (simp_all add: import_from_def import_module_def resolve_def module_after_def
          load_output_def bind_submodule_def split: option.splits)
  qed
qed

lemma resolve_globals: "resolve F (s\<lparr>globals := g\<rparr>) m n = resolve F s m n"
  by (simp add: resolve_def)

lemma module_after_globals: "module_after F (s\<lparr>globals := g\<rparr>) m = module_after F s m"
  by (simp add: module_after_def)

lemma load_output_globals: "load_output F (s\<lparr>globals := g\<rparr>) m = load_output F s m"
  by (simp add: load_output_def)

lemma resolve_other:
  "m' \<noteq> m \<Longrightarrow>
   resolve F (s\<lparr>globals := g, sys_modules := (sys_modules s)(m := v), stdout := out\<rparr>) m' n
     = resolve F s m' n"
  by (simp add: resolve_def)

lemma module_after_other:
  "m' \<noteq> m \<Longrightarrow>
   module_after F (s\<lparr>globals := g, sys_modules := (sys_modules s)(m := v), stdout := out\<rparr>) m'
     = module_after F s m'"
  by (simp add: module_after_def)

lemma load_output_other:
  "m' \<noteq> m \<Longrightarrow>
   load_output F (s\<lparr>globals := g, sys_modules := (sys_modules s)(m := v), stdout := out\<rparr>) m'
     = load_output F s m'"
  by (simp add: load_output_def)

lemma siblings:
  "butlast state_module = package_name" "2 \<le> length state_module" "last state_module = ''state''"
  "butlast workflow_module = package_name" "2 \<le> length workflow_module"
  "last workflow_module = ''workflow''" "workflow_module \<noteq> state_module"
  by (simp_all add: state_module_def workflow_module_def package_name_def)

lemma bind_loaded_globals: "bind_loaded F (s\<lparr>globals := g\<rparr>) m = bind_loaded F s m"
  by (rule ext) (simp add: bind_loaded_def module_after_def)

lemma bind_loaded_other:
  "m' \<noteq> m \<Longrightarrow>
   bind_loaded F (s\<lparr>globals := g, sys_modules := (sys_modules s)(m := v), stdout := out\<rparr>) m'
     = bind_loaded F s m'"
  by (rule ext) (simp add: bind_loaded_def module_after_def)

lemma import_step:
  assumes "butlast m = package_name" and "2 \<le> length m"
  shows "import_from F m n s =
     (case resolve F s m n of
        Inl e \<Rightarrow>
          (Some e,
           s\<lparr>globals := bind_loaded F s m (globals s),
             sys_modules := (sys_modules s)(m := module_after F s m),
             stdout := stdout s @ load_output F s m\<rparr>)
      | Inr v \<Rightarrow>
          (None,
           s\<lparr>globals := (bind_loaded F s m (globals s))(n \<mapsto> v),
             sys_modules := (sys_modules s)(m := module_after F s m),
             stdout := stdout s @ load_output F s m\<rparr>))"
  by (simp add: import_from_sibling [OF assms] bind_loaded_def Let_def split: sum.splits)

lemma init_module_run:
  "init_module F s =
     (case resolve F s state_module ''AgentState'' of
        Inl e \<Rightarrow>
          (Some e,
           s\<lparr>globals := bind_loaded F s state_module ((globals s)(''__doc__'' \<mapsto> PyStr docstring)),
             sys_modules := (sys_modules s)(state_module := module_after F s state_module),
             stdout := stdout s @ load_output F s state_module\<rparr>)
      | Inr v1 \<Rightarrow>
          (case resolve F s workflow_module ''build_agent_graph'' of
             Inl e \<Rightarrow>
               (Some e,
                s\<lparr>globals :=
                    bind_loaded F s workflow_module
                      ((bind_loaded F s state_module
                          ((globals s)(''__doc__'' \<mapsto> PyStr docstring)))
                       (''AgentState'' \<mapsto> v1)),
                  sys_modules :=
                    (sys_modules s)
                      (state_module := module_after F s state_module,
                       workflow_module := module_after F s workflow_module),
                  stdout :=
                    stdout s @ load_output F s state_module @ load_output F s workflow_module\<rparr>)
           | Inr v2 \<Rightarrow>
               (None,
                s\<lparr>globals :=
                    (bind_loaded F s workflow_module
                      ((bind_loaded F s state_module
                          ((globals s)(''__doc__'' \<mapsto> PyStr docstring)))
                       (''AgentState'' \<mapsto> v1)))
                    (''build_agent_graph'' \<mapsto> v2,
                     ''__all__'' \<mapsto> PyList (map PyStr dunder_all)),
                  sys_modules :=
                    (sys_modules s)
                      (state_module := module_after F s state_module,
                       workflow_module := module_after F s workflow_module),
                  stdout :=
                    stdout s @ load_output F s state_module @ load_output F s workflow_module\<rparr>)))"
proof (cases "resolve F s state_module ''AgentState''")
    case (Inl e)
    then show ?thesis
      by (simp add: init_module_def and_then_def store_name_def
          import_step [OF siblings(1,2)] resolve_globals module_after_globals
          load_output_globals bind_loaded_globals)
  next
    case (Inr v1)
    show ?thesis
    proof (cases "resolve F s workflow_module ''build_agent_graph''")
      case (Inl e)
      with Inr show ?thesis
        by (simp add: init_module_def and_then_def store_name_def
            import_step [OF siblings(1,2)] import_step [OF siblings(4,5)]
            resolve_globals module_after_globals load_output_globals bind_loaded_globals
            resolve_other [OF siblings(7)] module_after_other [OF siblings(7)]
            load_output_other [OF siblings(7)] bind_loaded_other [OF siblings(7)])
    next
      case inr2: (Inr v2)
      with Inr show ?thesis
        by (simp add: init_module_def and_then_def store_name_def
            import_step [OF siblings(1,2)] import_step [OF siblings(4,5)]
            resolve_globals module_after_globals load_output_globals bind_loaded_globals
            resolve_other [OF siblings(7)] module_after_other [OF siblings(7)]
            load_output_other [OF siblings(7)] bind_loaded_other [OF siblings(7)])
    qed
qed

text \<open>A run that does not raise: both definitions resolved, and the state it ends in.\<close>

lemma init_module_success:
  assumes "init_module F s = (None, t)"
  obtains v1 v2 where
    "resolve F s state_module ''AgentState'' = Inr v1"
    "resolve F s workflow_module ''build_agent_graph'' = Inr v2"
    "t = s\<lparr>globals :=
            (bind_loaded F s workflow_module
              ((bind_loaded F s state_module
                  ((globals s)(''__doc__'' \<mapsto> PyStr docstring)))
               (''AgentState'' \<mapsto> v1)))
            (''build_agent_graph'' \<mapsto> v2,
             ''__all__'' \<mapsto> PyList (map PyStr dunder_all)),
          sys_modules :=
            (sys_modules s)
              (state_module := module_after F s state_module,
               workflow_module := module_after F s workflow_module),
          stdout :=
            stdout s @ load_output F s state_module @ load_output F s workflow_module\<rparr>"
  using assms by (auto simp: init_module_run split: sum.splits)


lemma example_resolves:
  "resolve example_finder fresh_interp state_module ''AgentState'' = Inr (PyObj 1)"
  "resolve example_finder fresh_interp workflow_module ''build_agent_graph'' = Inr (PyObj 2)"
  by (simp_all add: resolve_def example_finder_def fresh_interp_def state_module_def
      workflow_module_def)

lemma example_run: "fst (init_module example_finder fresh_interp) = None"
  by (simp add: init_module_run example_resolves)

lemma example_run_pair:
  "init_module example_finder fresh_interp = (None, snd (init_module example_finder fresh_interp))"
  using example_run by (simp add: prod_eq_iff)

lemma other_resolves:
  "resolve other_finder warm_interp state_module ''AgentState'' = Inr (PyObj 1)"
  "resolve other_finder warm_interp workflow_module ''build_agent_graph'' = Inr (PyObj 2)"
  by (simp_all add: resolve_def other_finder_def warm_interp_def state_module_def
      workflow_module_def)

lemma other_run: "fst (init_module other_finder warm_interp) = None"
  by (simp add: init_module_run other_resolves)

lemma other_run_pair:
  "init_module other_finder warm_interp = (None, snd (init_module other_finder warm_interp))"
  using other_run by (simp add: prod_eq_iff)

text \<open>The state the example run ends in, in full.\<close>

lemma example_final:
  "snd (init_module example_finder fresh_interp) =
     \<lparr>globals =
        [''__name__'' \<mapsto> PyStr ''src.agent'',
         ''__doc__'' \<mapsto> PyStr docstring,
         ''state'' \<mapsto> PyModule state_module,
         ''AgentState'' \<mapsto> PyObj 1,
         ''workflow'' \<mapsto> PyModule workflow_module,
         ''build_agent_graph'' \<mapsto> PyObj 2,
         ''__all__'' \<mapsto> PyList [PyStr ''build_agent_graph'', PyStr ''AgentState'']],
      sys_modules =
        [state_module \<mapsto> [''AgentState'' \<mapsto> PyObj 1],
         workflow_module \<mapsto> [''build_agent_graph'' \<mapsto> PyObj 2]],
      stdout = [''compiled'']\<rparr>"
  by (simp add: init_module_run example_resolves bind_loaded_def module_after_def
      load_output_def siblings dunder_all_def)
    (simp add: example_finder_def fresh_interp_def state_module_def workflow_module_def)



subsection \<open>What a successful initialisation leaves in the package namespace\<close>



text \<open>
  Claim C8. The export list \<^verbatim>\<open>__all__\<close> is a list of exactly two string literals
  without a duplicate, in a fixed order: \<^verbatim>\<open>"build_agent_graph"\<close> at index 0 and
  \<^verbatim>\<open>"AgentState"\<close> at index 1. This holds of the list literal in the file and of
  the value a successful initialisation binds.
\<close>

theorem dunder_all_two_names_in_order:
  assumes "init_module F s = (None, t)"
  shows "globals t ''__all__'' = Some (PyList [PyStr ''build_agent_graph'', PyStr ''AgentState''])
       \<and> concat (map exported_names module_stmts) = dunder_all
       \<and> distinct dunder_all \<and> length dunder_all = 2
       \<and> dunder_all ! 0 = ''build_agent_graph'' \<and> dunder_all ! 1 = ''AgentState''"
proof -
  from assms obtain g m out where t: "t = s\<lparr>globals := g(''__all__'' \<mapsto> PyList (map PyStr dunder_all)), sys_modules := m, stdout := out\<rparr>"
    by (rule init_module_success)
  show ?thesis
    by (simp add: t dunder_all_def module_stmts_def module_body_def)
qed

text \<open>The same at the example finder in a fresh interpreter.\<close>

theorem dunder_all_two_names_in_order_witness:
  "fst (init_module example_finder fresh_interp) = None
   \<and> globals (snd (init_module example_finder fresh_interp)) ''__all__''
       = Some (PyList [PyStr ''build_agent_graph'', PyStr ''AgentState''])
   \<and> concat (map exported_names module_stmts) = [''build_agent_graph'', ''AgentState'']"
  using dunder_all_two_names_in_order [OF example_run_pair] example_run
  by (simp add: dunder_all_def)





subsection \<open>The body over any import system\<close>

text \<open>The modelled import system is an instance of the general one.\<close>

lemma import_from_is_from_import: "import_from F m n = from_import (import_name F) m n"
  by (rule ext)
    (simp add: import_from_def from_import_def import_name_def split: prod.splits sum.splits option.splits)

lemma init_module_is_init_body: "init_module F = init_body (import_name F)"
  by (simp add: init_module_def init_body_def import_from_is_from_import)

text \<open>A run in closed form: where it stops, and the state it stops in.\<close>

lemma init_body_run:
  "init_body imp s
     = (case fst (first_import imp s) of
          Inl e \<Rightarrow> (Some e, snd (first_import imp s))
        | Inr v1 \<Rightarrow>
            (case fst (second_import imp s v1) of
               Inl e \<Rightarrow> (Some e, snd (second_import imp s v1))
             | Inr v2 \<Rightarrow>
                 (None,
                  (snd (second_import imp s v1))
                    \<lparr>globals := (globals (snd (second_import imp s v1)))
                       (''build_agent_graph'' \<mapsto> v2,
                        ''__all__'' \<mapsto> PyList (map PyStr dunder_all))\<rparr>)))"
proof (cases "first_import imp s")
  case first: (Pair r1 s1)
  show ?thesis
  proof (cases r1)
    case (Inl e)
    with first show ?thesis
      by (simp add: init_body_def and_then_def store_name_def from_import_def
          first_import_def)
  next
    case (Inr v1)
    show ?thesis
    proof (cases "second_import imp s v1")
      case second: (Pair r2 s2)
      from first Inr second show ?thesis
        by (cases r2)
          (simp_all add: init_body_def and_then_def store_name_def from_import_def
            first_import_def second_import_def)
    qed
  qed
qed

text \<open>The run over the import system that resolves a submodule, loads a further module
  and binds a further name: all of it is in the final state.\<close>

lemma busy_run:
  "init_body busy_imports fresh_interp =
     (None,
      \<lparr>globals =
         [''__name__'' \<mapsto> PyStr ''src.agent'',
          ''__doc__'' \<mapsto> PyStr docstring,
          ''state'' \<mapsto> PyModule state_module,
          ''foo'' \<mapsto> PyObj 3,
          ''AgentState'' \<mapsto> PyModule (state_module @ [''AgentState'']),
          ''build_agent_graph'' \<mapsto> PyObj 2,
          ''__all__'' \<mapsto> PyList [PyStr ''build_agent_graph'', PyStr ''AgentState'']],
       sys_modules =
         [state_module \<mapsto> [''AgentState'' \<mapsto> PyModule (state_module @ [''AgentState''])],
          state_module @ [''AgentState''] \<mapsto> Map.empty,
          [''colorsys''] \<mapsto> Map.empty],
       stdout = [''loading state'']\<rparr>)"
  by (simp add: init_body_run first_import_def second_import_def busy_imports_def siblings
      dunder_all_def fresh_interp_def)

subsection \<open>When initialisation raises\<close>

text \<open>
  Claim C3. Initialising the module raises if and only if the import resolution of
  one of the two sibling definitions fails (\<^verbatim>\<open>src.agent.state.AgentState\<close> or
  \<^verbatim>\<open>src.agent.workflow.build_agent_graph\<close>). If both resolve, it succeeds; there is
  no other way to fail, and the exception raised is the one of the resolution that
  fails. This holds over every import system, whatever decides that a resolution fails
  or succeeds and whatever an import does to the state: the first resolution is the one
  made in the initial state with the docstring bound, the second is made only if the
  first succeeded, in the state the first one left.
\<close>

theorem init_raises_iff_import_fails:
  "fst (init_body imp s)
     = (case fst (first_import imp s) of
          Inl e \<Rightarrow> Some e
        | Inr v1 \<Rightarrow>
            (case fst (second_import imp s v1) of Inl e \<Rightarrow> Some e | Inr v2 \<Rightarrow> None))
   \<and> (fst (init_body imp s) = None)
     = (\<exists>v1 v2. fst (first_import imp s) = Inr v1 \<and> fst (second_import imp s v1) = Inr v2)"
  by (simp add: init_body_run split: sum.splits)

lemma snapshot_has_no_sibling:
  "path_finder snapshot_files code state_module = None"
  "path_finder snapshot_files code workflow_module = None"
  by (simp_all add: path_finder_def snapshot_files_def module_files_def state_module_def
      workflow_module_def)

text \<open>
  Claim C6. The sibling modules the import statements name are not in the repository
  snapshot: neither \<^verbatim>\<open>src.agent.state\<close> nor \<^verbatim>\<open>src.agent.workflow\<close> is found among
  its files. So within the snapshot (a state in which the state module is not loaded
  from elsewhere) initialisation does not complete: it raises
  \<^verbatim>\<open>ModuleNotFoundError\<close> at the first import, with only the docstring bound.
\<close>

theorem snapshot_import_fails:
  assumes "sys_modules s state_module = None"
  shows "path_finder snapshot_files code state_module = None
       \<and> path_finder snapshot_files code workflow_module = None
       \<and> init_module (path_finder snapshot_files code) s
           = (Some (ModuleNotFoundError state_module),
              s\<lparr>globals := (globals s)(''__doc__'' \<mapsto> PyStr docstring)\<rparr>)"
proof -
  have r: "resolve (path_finder snapshot_files code) s state_module ''AgentState''
             = Inl (ModuleNotFoundError state_module)"
    using assms by (simp add: resolve_def snapshot_has_no_sibling)
  have same: "(sys_modules s)(state_module := None) = sys_modules s"
    using assms by (simp add: fun_upd_idem)
  have "init_module (path_finder snapshot_files code) s
           = (Some (ModuleNotFoundError state_module),
              s\<lparr>globals := (globals s)(''__doc__'' \<mapsto> PyStr docstring)\<rparr>)"
    using assms
    by (simp add: init_module_run r bind_loaded_def module_after_def load_output_def
        snapshot_has_no_sibling same)
  then show ?thesis
    by (simp add: snapshot_has_no_sibling)
qed

text \<open>A fresh interpreter, with any code for the modules that are found.\<close>

theorem snapshot_import_fails_witness:
  "sys_modules fresh_interp state_module = None
   \<and> init_module (path_finder snapshot_files (\<lambda>_. \<lparr>result = Inr Map.empty, emitted = []\<rparr>))
         fresh_interp
       = (Some (ModuleNotFoundError [''src'', ''agent'', ''state'']),
          fresh_interp\<lparr>globals := (globals fresh_interp)(''__doc__'' \<mapsto> PyStr docstring)\<rparr>)"
proof -
  have h: "sys_modules fresh_interp state_module = None"
    by (simp add: fresh_interp_def)
  show ?thesis
    using h snapshot_import_fails [OF h, of "\<lambda>_. \<lparr>result = Inr Map.empty, emitted = []\<rparr>"]
    by (simp add: state_module_def)
qed

subsection \<open>What initialisation changes\<close>

text \<open>
  Claim C4, as stated: initialisation has no observable effect beyond binding the two
  re-exported names, \<^verbatim>\<open>__all__\<close> and the docstring in the package namespace, and
  mutates no state outside that namespace. This fails in a fresh interpreter: the import
  statement loads \<^verbatim>\<open>src.agent.state\<close>, which registers the module in
  \<^verbatim>\<open>sys.modules\<close> (state outside the namespace) and binds the submodule under the
  further name \<^verbatim>\<open>state\<close> in the package namespace. The run is the one of the body over
  the modelled import system.
\<close>

theorem init_module_loads_siblings:
  "init_body (import_name example_finder) fresh_interp = init_module example_finder fresh_interp
   \<and> fst (init_module example_finder fresh_interp) = None
   \<and> sys_modules fresh_interp state_module = None
   \<and> sys_modules (snd (init_module example_finder fresh_interp)) state_module
       = Some [''AgentState'' \<mapsto> PyObj 1]
   \<and> globals fresh_interp ''state'' = None
   \<and> globals (snd (init_module example_finder fresh_interp)) ''state''
       = Some (PyModule state_module)"
proof -
  have "init_body (import_name example_finder) fresh_interp
          = init_module example_finder fresh_interp"
    by (simp only: init_module_is_init_body)
  moreover have "fst (init_module example_finder fresh_interp) = None
   \<and> sys_modules fresh_interp state_module = None
   \<and> sys_modules (snd (init_module example_finder fresh_interp)) state_module
       = Some [''AgentState'' \<mapsto> PyObj 1]
   \<and> globals fresh_interp ''state'' = None
   \<and> globals (snd (init_module example_finder fresh_interp)) ''state''
       = Some (PyModule state_module)"
    by (simp add: example_run example_final)
      (simp add: fresh_interp_def state_module_def workflow_module_def)
  ultimately show ?thesis
    by (rule conjI)
qed

text \<open>
  Claim C4, amended. Initialisation does nothing but run its two import statements and
  bind four names in the package namespace. It binds \<^verbatim>\<open>__doc__\<close>, runs the first
  import and binds \<^verbatim>\<open>AgentState\<close> to the value resolved, runs the second import and
  binds \<^verbatim>\<open>build_agent_graph\<close> to the value resolved, and binds \<^verbatim>\<open>__all__\<close>: a run
  that raises ends in the state the failing import left, and a run that succeeds ends in
  the state the second import left with \<^verbatim>\<open>build_agent_graph\<close> and \<^verbatim>\<open>__all__\<close> bound.
  Every other effect is an effect of the import system running those two imports. So
  whenever the two imports leave the state as it is, initialisation changes no entry of
  \<^verbatim>\<open>sys.modules\<close>, writes no output and changes no name of the package namespace
  but the four, and a successful run binds these four to the docstring, the two resolved
  values and the list of the two names. This holds over every import system.
\<close>

theorem init_body_effects:
  "init_body imp s
     = (case fst (first_import imp s) of
          Inl e \<Rightarrow> (Some e, snd (first_import imp s))
        | Inr v1 \<Rightarrow>
            (case fst (second_import imp s v1) of
               Inl e \<Rightarrow> (Some e, snd (second_import imp s v1))
             | Inr v2 \<Rightarrow>
                 (None,
                  (snd (second_import imp s v1))
                    \<lparr>globals := (globals (snd (second_import imp s v1)))
                       (''build_agent_graph'' \<mapsto> v2,
                        ''__all__'' \<mapsto> PyList (map PyStr dunder_all))\<rparr>)))
   \<and> (snd (first_import imp s) = s\<lparr>globals := (globals s)(''__doc__'' \<mapsto> PyStr docstring)\<rparr>
        \<and> (\<forall>v1. fst (first_import imp s) = Inr v1 \<longrightarrow>
               snd (second_import imp s v1)
                 = s\<lparr>globals := (globals s)(''__doc__'' \<mapsto> PyStr docstring,
                                             ''AgentState'' \<mapsto> v1)\<rparr>)
      \<longrightarrow> sys_modules (snd (init_body imp s)) = sys_modules s
        \<and> stdout (snd (init_body imp s)) = stdout s
        \<and> globals (snd (init_body imp s))
             |` (- {''__doc__'', ''AgentState'', ''build_agent_graph'', ''__all__''})
           = globals s |` (- {''__doc__'', ''AgentState'', ''build_agent_graph'', ''__all__''})
        \<and> (\<forall>v1 v2. fst (first_import imp s) = Inr v1 \<and> fst (second_import imp s v1) = Inr v2
               \<longrightarrow> globals (snd (init_body imp s))
                     = (globals s)(''__doc__'' \<mapsto> PyStr docstring,
                                   ''AgentState'' \<mapsto> v1,
                                   ''build_agent_graph'' \<mapsto> v2,
                                   ''__all__'' \<mapsto> PyList (map PyStr dunder_all))))"
proof (intro conjI impI)
  show "init_body imp s
     = (case fst (first_import imp s) of
          Inl e \<Rightarrow> (Some e, snd (first_import imp s))
        | Inr v1 \<Rightarrow>
            (case fst (second_import imp s v1) of
               Inl e \<Rightarrow> (Some e, snd (second_import imp s v1))
             | Inr v2 \<Rightarrow>
                 (None,
                  (snd (second_import imp s v1))
                    \<lparr>globals := (globals (snd (second_import imp s v1)))
                       (''build_agent_graph'' \<mapsto> v2,
                        ''__all__'' \<mapsto> PyList (map PyStr dunder_all))\<rparr>)))"
    by (rule init_body_run)
next
  assume quiet:
    "snd (first_import imp s) = s\<lparr>globals := (globals s)(''__doc__'' \<mapsto> PyStr docstring)\<rparr>
     \<and> (\<forall>v1. fst (first_import imp s) = Inr v1 \<longrightarrow>
            snd (second_import imp s v1)
              = s\<lparr>globals := (globals s)(''__doc__'' \<mapsto> PyStr docstring,
                                          ''AgentState'' \<mapsto> v1)\<rparr>)"
  then have q1: "snd (first_import imp s)
                   = s\<lparr>globals := (globals s)(''__doc__'' \<mapsto> PyStr docstring)\<rparr>"
    and q2: "\<And>v1. fst (first_import imp s) = Inr v1 \<Longrightarrow>
               snd (second_import imp s v1)
                 = s\<lparr>globals := (globals s)(''__doc__'' \<mapsto> PyStr docstring,
                                             ''AgentState'' \<mapsto> v1)\<rparr>"
    by blast+
  let ?t = "snd (init_body imp s)"
  show "sys_modules ?t = sys_modules s"
    by (cases "fst (first_import imp s)")
      (auto simp: init_body_run q1 q2 split: sum.splits)
  show "stdout ?t = stdout s"
    by (cases "fst (first_import imp s)")
      (auto simp: init_body_run q1 q2 split: sum.splits)
  have "globals ?t x = globals s x"
    if "x \<notin> {''__doc__'', ''AgentState'', ''build_agent_graph'', ''__all__''}" for x
    using that
    by (cases "fst (first_import imp s)")
      (auto simp: init_body_run q1 q2 split: sum.splits)
  then show "globals ?t |` (- {''__doc__'', ''AgentState'', ''build_agent_graph'', ''__all__''})
           = globals s |` (- {''__doc__'', ''AgentState'', ''build_agent_graph'', ''__all__''})"
    by (intro ext) (simp add: restrict_map_def)
  show "\<forall>v1 v2. fst (first_import imp s) = Inr v1 \<and> fst (second_import imp s v1) = Inr v2
               \<longrightarrow> globals ?t
                     = (globals s)(''__doc__'' \<mapsto> PyStr docstring,
                                   ''AgentState'' \<mapsto> v1,
                                   ''build_agent_graph'' \<mapsto> v2,
                                   ''__all__'' \<mapsto> PyList (map PyStr dunder_all))"
    by (auto simp: init_body_run q2)
qed

text \<open>With both siblings loaded beforehand, the two imports of the modelled import system
  leave the state as it is.\<close>

lemma loaded_first:
  "first_import (import_name example_finder) loaded_interp
     = (Inr (PyObj 1),
        loaded_interp\<lparr>globals := (globals loaded_interp)(''__doc__'' \<mapsto> PyStr docstring)\<rparr>)"
  by (simp add: first_import_def import_name_def import_module_def loaded_interp_def
      state_module_def workflow_module_def)

lemma loaded_second:
  "second_import (import_name example_finder) loaded_interp (PyObj 1)
     = (Inr (PyObj 2),
        loaded_interp\<lparr>globals := (globals loaded_interp)(''__doc__'' \<mapsto> PyStr docstring,
                                                        ''AgentState'' \<mapsto> PyObj 1)\<rparr>)"
  using loaded_first
  by (simp add: second_import_def import_name_def import_module_def loaded_interp_def
      state_module_def workflow_module_def)

text \<open>There the run changes the four names and nothing else.\<close>

theorem init_body_effects_witness:
  "first_import (import_name example_finder) loaded_interp
     = (Inr (PyObj 1),
        loaded_interp\<lparr>globals := (globals loaded_interp)(''__doc__'' \<mapsto> PyStr docstring)\<rparr>)
   \<and> second_import (import_name example_finder) loaded_interp (PyObj 1)
     = (Inr (PyObj 2),
        loaded_interp\<lparr>globals := (globals loaded_interp)(''__doc__'' \<mapsto> PyStr docstring,
                                                        ''AgentState'' \<mapsto> PyObj 1)\<rparr>)
   \<and> sys_modules (snd (init_body (import_name example_finder) loaded_interp))
       = sys_modules loaded_interp
   \<and> stdout (snd (init_body (import_name example_finder) loaded_interp)) = [''started'']
   \<and> globals (snd (init_body (import_name example_finder) loaded_interp))
       = [''__name__'' \<mapsto> PyStr ''src.agent'',
          ''__doc__'' \<mapsto> PyStr docstring,
          ''AgentState'' \<mapsto> PyObj 1,
          ''build_agent_graph'' \<mapsto> PyObj 2,
          ''__all__'' \<mapsto> PyList [PyStr ''build_agent_graph'', PyStr ''AgentState'']]"
proof -
  have q: "snd (first_import (import_name example_finder) loaded_interp)
             = loaded_interp\<lparr>globals := (globals loaded_interp)(''__doc__'' \<mapsto> PyStr docstring)\<rparr>
           \<and> (\<forall>v1. fst (first_import (import_name example_finder) loaded_interp) = Inr v1 \<longrightarrow>
                  snd (second_import (import_name example_finder) loaded_interp v1)
                    = loaded_interp\<lparr>globals := (globals loaded_interp)
                         (''__doc__'' \<mapsto> PyStr docstring, ''AgentState'' \<mapsto> v1)\<rparr>)"
    using loaded_first loaded_second by simp
  have r: "fst (first_import (import_name example_finder) loaded_interp) = Inr (PyObj 1)
         \<and> fst (second_import (import_name example_finder) loaded_interp (PyObj 1))
             = Inr (PyObj 2)"
    using loaded_first loaded_second by simp
  from init_body_effects [of "import_name example_finder" loaded_interp] q r
  have "sys_modules (snd (init_body (import_name example_finder) loaded_interp))
          = sys_modules loaded_interp
      \<and> stdout (snd (init_body (import_name example_finder) loaded_interp)) = stdout loaded_interp
      \<and> globals (snd (init_body (import_name example_finder) loaded_interp))
          = (globals loaded_interp)(''__doc__'' \<mapsto> PyStr docstring,
                                    ''AgentState'' \<mapsto> PyObj 1,
                                    ''build_agent_graph'' \<mapsto> PyObj 2,
                                    ''__all__'' \<mapsto> PyList (map PyStr dunder_all))"
    by blast
  moreover have "stdout loaded_interp = [''started'']"
    and "(globals loaded_interp)(''__doc__'' \<mapsto> PyStr docstring,
                                    ''AgentState'' \<mapsto> PyObj 1,
                                    ''build_agent_graph'' \<mapsto> PyObj 2,
                                    ''__all__'' \<mapsto> PyList (map PyStr dunder_all))
       = [''__name__'' \<mapsto> PyStr ''src.agent'',
          ''__doc__'' \<mapsto> PyStr docstring,
          ''AgentState'' \<mapsto> PyObj 1,
          ''build_agent_graph'' \<mapsto> PyObj 2,
          ''__all__'' \<mapsto> PyList [PyStr ''build_agent_graph'', PyStr ''AgentState'']]"
    by (simp_all add: loaded_interp_def dunder_all_def)
  ultimately show ?thesis
    using loaded_first loaded_second by simp
qed

subsection \<open>The syntax of the file and its meaning\<close>

text \<open>
  The statement list \<open>module_body\<close> is the file: written out in the file's layout it
  gives \<open>source_lines\<close> line by line, and executed statement by statement it is
  \<open>init_module\<close>.
\<close>

lemma and_then_pass_left: "and_then pass g = g"
  by (rule ext) (simp add: and_then_def pass_def)

lemma and_then_pass_right: "and_then f pass = f"
  by (rule ext) (simp add: and_then_def pass_def split: prod.splits option.splits)

lemma module_meaning: "exec_module F module_stmts = Some (init_module F)"
  by (simp add: exec_module_def module_stmts_def module_body_def doc_value_def dunder_all_def
      init_module_def and_then_pass_left and_then_pass_right)

lemma layout_source: "layout 1 module_body = Some source_lines"
  by (simp add: module_body_def source_lines_def docstring_def state_module_def
      workflow_module_def dunder_all_def)

lemma module_stmts_eq:
  "module_stmts =
     [Expr (Constant docstring),
      ImportFrom state_module [''AgentState''],
      ImportFrom workflow_module [''build_agent_graph''],
      Assign ''__all__'' (ListExpr [Constant ''build_agent_graph'', Constant ''AgentState''])]"
  by (simp add: module_stmts_def module_body_def dunder_all_def)

text \<open>
  Claim C2. The module defines neither \<^verbatim>\<open>AgentState\<close> nor \<^verbatim>\<open>build_agent_graph\<close>
  itself: it has no function or class definition at all. It imports \<^verbatim>\<open>AgentState\<close>
  from the sibling module \<^verbatim>\<open>src.agent.state\<close> and \<^verbatim>\<open>build_agent_graph\<close> from the
  sibling module \<^verbatim>\<open>src.agent.workflow\<close>, restates both names in \<^verbatim>\<open>__all__\<close>, and
  \<^verbatim>\<open>__all__\<close> is the only name it assigns.
\<close>

theorem module_only_reexports:
  "concat (map defined_names module_stmts) = []
   \<and> concat (map imported_names module_stmts)
       = [(''AgentState'', package_name @ [''state'']),
          (''build_agent_graph'', package_name @ [''workflow''])]
   \<and> concat (map assigned_names module_stmts) = [''__all__'']
   \<and> concat (map exported_names module_stmts) = [''build_agent_graph'', ''AgentState'']
   \<and> set (concat (map exported_names module_stmts))
       = fst ` set (concat (map imported_names module_stmts))
   \<and> layout 1 module_body = Some source_lines"
  using layout_source
  by (simp add: module_stmts_eq state_module_def workflow_module_def package_name_def
      insert_commute)

text \<open>
  Claim C5. Every statement of the module body is the docstring, one of the two import
  statements or the assignment of \<^verbatim>\<open>__all__\<close>, in this order. None of them is a
  definition, control flow, error handling or concurrency, none contains a call (so there
  is no input or output and no computation), the only values written down are literals,
  and executing the body is executing the four statements one after the other.
\<close>

theorem module_is_straight_line:
  "module_stmts =
     [Expr (Constant docstring),
      ImportFrom state_module [''AgentState''],
      ImportFrom workflow_module [''build_agent_graph''],
      Assign ''__all__'' (ListExpr [Constant ''build_agent_graph'', Constant ''AgentState''])]
   \<and> list_all (\<lambda>st. \<not> is_definition st \<and> \<not> is_control_flow st \<and> \<not> is_error_handling st
                    \<and> \<not> is_concurrency st \<and> \<not> list_ex has_call (stmt_exprs st)) module_stmts
   \<and> list_all is_literal (concat (map stmt_exprs module_stmts))
   \<and> exec_module F module_stmts = Some (init_module F)
   \<and> layout 1 module_body = Some source_lines"
  using layout_source module_meaning [of F]
  by (simp add: module_stmts_eq)

text \<open>
  Claim C7. The file has exactly 23 lines. They are the four declarative statements (the
  docstring on 15 lines, the two imports on one line each, the \<^verbatim>\<open>__all__\<close> literal
  on 4 lines: 21 lines) and the two empty lines 16 and 19 that separate them; no line
  belongs to a statement that is not declarative.
\<close>

theorem file_is_23_declarative_lines:
  "length source_lines = 23
   \<and> layout 1 module_body = Some source_lines
   \<and> list_all is_declarative module_stmts
   \<and> declarative_lines module_body = 21
   \<and> logic_lines module_body = 0
   \<and> source_lines ! 15 = [] \<and> source_lines ! 18 = []"
proof -
  have "length source_lines = 23" "source_lines ! 15 = []" "source_lines ! 18 = []"
    by (simp_all add: source_lines_def)
  moreover have "list_all is_declarative module_stmts"
    by (simp add: module_stmts_eq)
  moreover have "declarative_lines module_body = 21" "logic_lines module_body = 0"
    by (simp_all add: module_body_def declarative_lines_def logic_lines_def dunder_all_def)
  ultimately show ?thesis
    using layout_source by simp
qed

end
